theory Spec2Isabelle
  imports Complex_Main "HOL-Library.Sublist"
begin

section \<open>Python values\<close>

text \<open>
  The proxy (\<^verbatim>\<open>claude_proxy.py\<close>) handles request bodies as \<^verbatim>\<open>bytes\<close> and
  everything it reads out of JSON as ordinary Python values. A byte string is a list of
  8-bit characters. A \<^verbatim>\<open>str\<close> is written as the bytes of its UTF-8 form (a lone
  surrogate as the three bytes that form would give it). A Python float is
  represented by the exact rational value of the double (every finite double is a dyadic
  rational) or one of the three special values; the sign of zero is not kept, since no
  comparison or truth test of the source can observe it. Python's \<^verbatim>\<open>None\<close> is
  \<open>JNull\<close>, as in the \<^verbatim>\<open>json\<close> module. A \<^verbatim>\<open>dict\<close> is an association list in
  insertion order.
\<close>

type_synonym bytes = string

datatype pyfloat = Finite rat | PosInf | NegInf | NaN

datatype json =
    JNull
  | JBool bool
  | JInt int
  | JFloat pyfloat
  | JStr string
  | JArr "json list"
  | JObj "(string \<times> json) list"

type_synonym pydict = "(string \<times> json) list"

text \<open>Truth value of a Python object, as \<^verbatim>\<open>or\<close> tests it.\<close>

fun truthy :: "json \<Rightarrow> bool" where
  "truthy JNull = False"
| "truthy (JBool b) = b"
| "truthy (JInt i) = (i \<noteq> 0)"
| "truthy (JFloat f) = (f \<noteq> Finite 0)"
| "truthy (JStr s) = (s \<noteq> [])"
| "truthy (JArr xs) = (xs \<noteq> [])"
| "truthy (JObj d) = (d \<noteq> [])"

text \<open>\<^verbatim>\<open>a or b\<close>: the first operand when it is truthy, otherwise the second.\<close>

definition py_or :: "json \<Rightarrow> json \<Rightarrow> json" where
  "py_or a b = (if truthy a then a else b)"

text \<open>
  Python's \<^verbatim>\<open>==\<close> on these values. \<^verbatim>\<open>bool\<close> is a subclass of \<^verbatim>\<open>int\<close>, and
  \<^verbatim>\<open>int\<close> and \<^verbatim>\<open>float\<close> compare by exact numeric value; NaN equals nothing, itself
  included. Lists compare item by item and dicts as sets of key-value pairs, and both
  take two items for equal when they are the same object, before \<^verbatim>\<open>==\<close> is asked
  (\<^verbatim>\<open>x is y or x == y\<close>). Among the values here only NaN is not equal to itself, and
  an item of a list or dict can only come from \<^verbatim>\<open>json.loads\<close>, which returns the one
  object \<^verbatim>\<open>json.decoder.NaN\<close> for every NaN it reads; so two NaN items are the same
  object and count as equal, while two NaN compared directly do not.
\<close>

fun numeric :: "json \<Rightarrow> pyfloat option" where
  "numeric (JBool b) = Some (Finite (if b then 1 else 0))"
| "numeric (JInt i) = Some (Finite (of_int i))"
| "numeric (JFloat f) = Some f"
| "numeric JNull = None"
| "numeric (JStr s) = None"
| "numeric (JArr xs) = None"
| "numeric (JObj d) = None"

definition num_eq :: "pyfloat option \<Rightarrow> pyfloat option \<Rightarrow> bool" where
  "num_eq x y = (case x of None \<Rightarrow> False
                 | Some a \<Rightarrow> (case y of None \<Rightarrow> False | Some b \<Rightarrow> a \<noteq> NaN \<and> a = b))"

definition same_nan :: "json \<Rightarrow> json \<Rightarrow> bool" where
  "same_nan x y = (x = JFloat NaN \<and> y = JFloat NaN)"

fun py_eq :: "json \<Rightarrow> json \<Rightarrow> bool"
  and py_eq_list :: "json list \<Rightarrow> json list \<Rightarrow> bool"
  and py_eq_items :: "(string \<times> json) list \<Rightarrow> (string \<times> json) list \<Rightarrow> bool"
  and py_eq_lookup :: "json \<Rightarrow> string \<Rightarrow> (string \<times> json) list \<Rightarrow> bool"
where
  "py_eq JNull JNull = True"
| "py_eq (JStr s) (JStr t) = (s = t)"
| "py_eq (JArr xs) (JArr ys) = py_eq_list xs ys"
| "py_eq (JObj d) (JObj e) = (length d = length e \<and> py_eq_items d e)"
| "py_eq a b = num_eq (numeric a) (numeric b)"
| "py_eq_list [] [] = True"
| "py_eq_list (x # xs) (y # ys) = ((same_nan x y \<or> py_eq x y) \<and> py_eq_list xs ys)"
| "py_eq_list [] (y # ys) = False"
| "py_eq_list (x # xs) [] = False"
| "py_eq_items [] e = True"
| "py_eq_items ((k, v) # d) e = (py_eq_lookup v k e \<and> py_eq_items d e)"
| "py_eq_lookup v k [] = False"
| "py_eq_lookup v k ((k', w) # e) =
     (if k' = k then same_nan v w \<or> py_eq v w else py_eq_lookup v k e)"

text \<open>\<^verbatim>\<open>a != b\<close>.\<close>

definition py_ne :: "json \<Rightarrow> json \<Rightarrow> bool" where
  "py_ne a b = (\<not> py_eq a b)"

text \<open>
  \<^verbatim>\<open>len(s)\<close> and \<^verbatim>\<open>s[:n]\<close> count characters, not bytes: in UTF-8 every byte of
  the form \<^verbatim>\<open>10xxxxxx\<close> continues the character before it.
\<close>

definition is_continuation :: "char \<Rightarrow> bool" where
  "is_continuation c = (128 \<le> (of_char c :: nat) \<and> (of_char c :: nat) < 192)"

definition py_len :: "string \<Rightarrow> nat" where
  "py_len s = length (filter (\<lambda>c. \<not> is_continuation c) s)"

fun py_take :: "nat \<Rightarrow> string \<Rightarrow> string" where
  "py_take n [] = []"
| "py_take n (c # s) =
     (if is_continuation c then c # py_take n s
      else (case n of 0 \<Rightarrow> [] | Suc k \<Rightarrow> c # py_take k s))"

subsection \<open>Dictionaries\<close>

text \<open>\<^verbatim>\<open>d.get(k)\<close>: the value stored under \<open>k\<close>, or \<^verbatim>\<open>None\<close> when the key is missing.\<close>

definition dict_get :: "pydict \<Rightarrow> string \<Rightarrow> json" where
  "dict_get d k = (case map_of d k of None \<Rightarrow> JNull | Some v \<Rightarrow> v)"

text \<open>
  \<^verbatim>\<open>d[k] = v\<close>: an existing key keeps its position and takes the new value, a new key
  goes to the end.
\<close>

fun dict_set :: "(string \<times> 'v) list \<Rightarrow> string \<Rightarrow> 'v \<Rightarrow> (string \<times> 'v) list" where
  "dict_set [] k v = [(k, v)]"
| "dict_set (kv # d) k v = (if fst kv = k then (k, v) # d else kv # dict_set d k v)"

text \<open>\<^verbatim>\<open>d.update(other)\<close>: the items of \<open>other\<close> are stored one after the other.\<close>

fun dict_update :: "(string \<times> 'v) list \<Rightarrow> (string \<times> 'v) list \<Rightarrow> (string \<times> 'v) list" where
  "dict_update d [] = d"
| "dict_update d (kv # other) = dict_update (dict_set d (fst kv) (snd kv)) other"

section \<open>The library and the outside world\<close>

text \<open>
  The source calls into the Python standard library (\<^verbatim>\<open>json.loads\<close>, \<^verbatim>\<open>json.dumps\<close>,
  \<^verbatim>\<open>str\<close>, \<^verbatim>\<open>int\<close>, \<^verbatim>\<open>print\<close>, \<^verbatim>\<open>open\<close>, \<^verbatim>\<open>urllib.request.urlopen\<close>). None of
  these is code of the repository, so they are parameters of the model, collected in one
  record; every general statement below holds for all of them.
\<close>

datatype exn = AttributeError | ValueError | OverflowError | UnicodeEncodeError | OtherError string

text \<open>
  What \<^verbatim>\<open>json.loads\<close> does on a byte string: it returns a value, raises
  \<^verbatim>\<open>json.JSONDecodeError\<close> (with its message), or raises something else (for instance
  \<^verbatim>\<open>UnicodeDecodeError\<close> on bytes that are not valid UTF-8).
\<close>

datatype loads_result = Parsed json | JSONDecodeError string | LoadsRaises exn

text \<open>
  What opening and reading the config file does: the path does not exist, reading
  raises \<^verbatim>\<open>IOError\<close> (with its message), or the file's text is returned.
\<close>

datatype file_read = NoSuchFile | IOError string | Contents bytes

text \<open>The request handed to \<^verbatim>\<open>urllib.request.Request\<close> and \<^verbatim>\<open>urlopen\<close>.\<close>

record outbound =
  out_url :: string
  out_data :: "bytes option"
  out_headers :: "(string \<times> string) list"
  out_method :: string

text \<open>
  The result of one \<^verbatim>\<open>read\<close> call on a response: bytes, or an exception whose
  \<^verbatim>\<open>str\<close> is given.
\<close>

datatype read_result = Chunk bytes | ReadError string

text \<open>
  What the \<^verbatim>\<open>try\<close> block up to and including \<^verbatim>\<open>urlopen\<close> does.
  \<^item> \<open>Response\<close>: a response object, with its status, its headers and the results of
    the successive calls \<^verbatim>\<open>response.read(8192)\<close>; past the end of the list every
    read returns \<^verbatim>\<open>b""\<close>.
  \<^item> \<open>HTTPError\<close>: \<^verbatim>\<open>urllib.error.HTTPError\<close> is raised, with its code, its headers
    and the result of \<^verbatim>\<open>e.read()\<close>.
  \<^item> \<open>Raised\<close>: any other \<^verbatim>\<open>Exception\<close> is raised; its \<^verbatim>\<open>str\<close> is given.
  \<^item> \<open>Redirected\<close>: the upstream answered with the given redirect status and headers,
    \<^verbatim>\<open>urlopen\<close>'s default opener followed the redirect by itself, and what came of
    the request it then made is the last argument. The handler never sees the redirect.
\<close>

datatype upstream =
    Response int "(string \<times> string) list" "read_result list"
  | HTTPError int "(string \<times> string) list" read_result
  | Raised string
  | Redirected int "(string \<times> string) list" upstream

text \<open>
  The lines the program prints, by the statement that prints them: the heading and the
  lines of the parameter echo (key and truncated value), the \<^verbatim>\<open>Injected\<close> line with the
  parameter, the old and the new value, the \<^verbatim>\<open>Loaded config from\<close> line with the path,
  the warning of \<^verbatim>\<open>load_config_file\<close> and the \<^verbatim>\<open>Error\<close> line with the exception's
  message.
\<close>

datatype log_line =
    RequestParameters
  | ParamLine string string
  | Injected string json json
  | LoadedConfig string
  | ConfigWarning string
  | ErrorLine string

text \<open>
  What the handler does to the outside, in order: the lines printed, the call of
  \<^verbatim>\<open>urlopen\<close>, and the calls of \<^verbatim>\<open>send_response\<close>, \<^verbatim>\<open>send_header\<close>,
  \<^verbatim>\<open>end_headers\<close>, \<^verbatim>\<open>wfile.write\<close> and \<^verbatim>\<open>wfile.flush\<close>. The library's
  \<^verbatim>\<open>send_response\<close> also logs the request line, through \<^verbatim>\<open>log_message\<close>, which
  prints it after \<^verbatim>\<open>[proxy]\<close>; that line is part of the event \<open>SendResponse\<close>.
\<close>

datatype event =
    Print log_line
  | Urlopen outbound
  | SendResponse int
  | SendHeader string string
  | EndHeaders
  | Write bytes
  | Flush

text \<open>
  \<open>py_str\<close> is \<^verbatim>\<open>str\<close> of a value. \<open>py_print\<close> is what \<^verbatim>\<open>print\<close> does with a line
  whose text comes from a JSON document or from the command line: it prints (\<open>None\<close>)
  or raises, as \<^verbatim>\<open>UnicodeEncodeError\<close> when the stream's encoding has no form for a
  character of the text (a lone surrogate read from \<^verbatim>\<open>"\ud800"\<close>, under UTF-8).
\<close>

record env =
  json_loads :: "bytes \<Rightarrow> loads_result"
  json_dumps :: "json \<Rightarrow> bytes"
  py_str :: "json \<Rightarrow> string"
  py_int :: "string \<Rightarrow> int option"
  py_print :: "log_line \<Rightarrow> exn option"
  open_file :: "string \<Rightarrow> file_read"
  urlopen :: "outbound \<Rightarrow> upstream"

section \<open>Running a part of the program\<close>

text \<open>
  A part of the program, run, gives the events it caused and then either the exception
  that left it (\<open>Inl\<close>) or the value it returned (\<open>Inr\<close>). \<open>andthen\<close> runs a second
  part after a first one that returned; an exception ends the run where it is raised.
  The streams are taken to be open: writing to the client succeeds, and a printed line
  made of fixed text, of the request line or of the message of a library exception is
  printed. A line that carries text of a JSON document or of the command line goes
  through \<open>py_print\<close> and may raise.
\<close>

type_synonym 'a run = "event list \<times> (exn + 'a)"

definition ret :: "'a \<Rightarrow> 'a run" where
  "ret a = ([], Inr a)"

definition throw :: "exn \<Rightarrow> 'a run" where
  "throw x = ([], Inl x)"

definition emit :: "event list \<Rightarrow> unit run" where
  "emit evs = (evs, Inr ())"

definition andthen :: "'a run \<Rightarrow> ('a \<Rightarrow> 'b run) \<Rightarrow> 'b run" where
  "andthen m f =
     (case snd m of
        Inl x \<Rightarrow> (fst m, Inl x)
      | Inr a \<Rightarrow> (fst m @ fst (f a), snd (f a)))"

definition print_line :: "env \<Rightarrow> log_line \<Rightarrow> unit run" where
  "print_line e l = (case py_print e l of None \<Rightarrow> emit [Print l] | Some x \<Rightarrow> throw x)"

text \<open>The change records among the events: what the \<^verbatim>\<open>Injected\<close> lines report.\<close>

type_synonym change = "string \<times> json \<times> json"

fun changes :: "event list \<Rightarrow> change list" where
  "changes [] = []"
| "changes (Print (Injected p a b) # evs) = (p, a, b) # changes evs"
| "changes (ev # evs) = changes evs"

section \<open>Configuration\<close>

definition ANTHROPIC_API_URL :: string where
  "ANTHROPIC_API_URL = ''https://api.anthropic.com''"

definition MAX_LOG_LENGTH :: nat where
  "MAX_LOG_LENGTH = 200"

text \<open>The global \<^verbatim>\<open>SAMPLING_CONFIG\<close> as the module creates it.\<close>

definition SAMPLING_CONFIG :: pydict where
  "SAMPLING_CONFIG = [(''temperature'', JNull), (''top_p'', JNull), (''top_k'', JNull)]"

text \<open>\<^verbatim>\<open>truncate\<close>, with the default \<^verbatim>\<open>max_len\<close>.\<close>

definition truncate_log :: "env \<Rightarrow> json \<Rightarrow> string" where
  "truncate_log e v =
     (let s = py_str e v
      in if py_len s > MAX_LOG_LENGTH
         then py_take MAX_LOG_LENGTH s @ ''... ('' @ py_str e (JInt (int (py_len s))) @ '' chars)''
         else s)"

text \<open>
  \<^verbatim>\<open>load_config_file\<close>. \<^verbatim>\<open>data.get\<close> exists only on a dict, so any other JSON value
  raises \<^verbatim>\<open>AttributeError\<close>, which the \<^verbatim>\<open>except\<close> clause does not catch.
\<close>

definition load_config_file :: "env \<Rightarrow> string \<Rightarrow> pydict run" where
  "load_config_file e config_path =
     (case open_file e config_path of
        NoSuchFile \<Rightarrow> ret []
      | IOError msg \<Rightarrow> andthen (emit [Print (ConfigWarning msg)]) (\<lambda>_. ret [])
      | Contents b \<Rightarrow>
          (case json_loads e b of
             JSONDecodeError msg \<Rightarrow> andthen (emit [Print (ConfigWarning msg)]) (\<lambda>_. ret [])
           | LoadsRaises x \<Rightarrow> throw x
           | Parsed v \<Rightarrow>
               (case v of
                  JObj d \<Rightarrow> ret
                    [(''temperature'',
                        py_or (dict_get d ''temperature'') (dict_get d ''preferred_temperature'')),
                     (''top_p'', py_or (dict_get d ''top_p'') (dict_get d ''preferred_top_p'')),
                     (''top_k'', py_or (dict_get d ''top_k'') (dict_get d ''preferred_top_k''))]
                | _ \<Rightarrow> throw AttributeError)))"

text \<open>The parsed command line, as far as \<^verbatim>\<open>main\<close> uses it for the overrides.\<close>

record args =
  arg_config :: "string option"
  arg_temperature :: "pyfloat option"
  arg_top_p :: "pyfloat option"
  arg_top_k :: "int option"

text \<open>\<^verbatim>\<open>if args.x is not None: SAMPLING_CONFIG[name] = args.x\<close>.\<close>

definition cli_override :: "string \<Rightarrow> json option \<Rightarrow> pydict \<Rightarrow> pydict" where
  "cli_override name a c = (case a of None \<Rightarrow> c | Some v \<Rightarrow> dict_set c name v)"

text \<open>
  The part of \<^verbatim>\<open>main\<close> that fills \<^verbatim>\<open>SAMPLING_CONFIG\<close> (lines 191 to 203): the file
  first (when \<^verbatim>\<open>args.config\<close> is a non-empty string), keeping only its values that are
  not \<^verbatim>\<open>None\<close>, then the command line. The value returned is the store the server runs
  with.
\<close>

definition main_config :: "env \<Rightarrow> args \<Rightarrow> pydict run" where
  "main_config e a =
     andthen
       (case arg_config a of
          None \<Rightarrow> ret SAMPLING_CONFIG
        | Some p \<Rightarrow>
            if p = [] then ret SAMPLING_CONFIG
            else andthen (load_config_file e p) (\<lambda>file_config.
                 andthen (print_line e (LoadedConfig p)) (\<lambda>_.
                 ret (dict_update SAMPLING_CONFIG
                        (filter (\<lambda>kv. snd kv \<noteq> JNull) file_config)))))
       (\<lambda>c. ret (cli_override ''top_k'' (map_option JInt (arg_top_k a))
                  (cli_override ''top_p'' (map_option JFloat (arg_top_p a))
                    (cli_override ''temperature'' (map_option JFloat (arg_temperature a)) c))))"

section \<open>The body rewriter\<close>

text \<open>
  The echo of the request parameters: one line for each item of the parsed object, in
  order. A line that cannot be printed ends the run.
\<close>

fun echo_params :: "env \<Rightarrow> pydict \<Rightarrow> unit run" where
  "echo_params e [] = ret ()"
| "echo_params e (kv # d) =
     andthen (print_line e (ParamLine (fst kv) (truncate_log e (snd kv)))) (\<lambda>_. echo_params e d)"

text \<open>
  The loop of \<^verbatim>\<open>_inject_sampling_params\<close> over the three parameter names. Its state is
  the parsed object and the flag \<^verbatim>\<open>modified\<close>.
\<close>

fun inject_loop :: "env \<Rightarrow> pydict \<Rightarrow> string list \<Rightarrow> pydict \<times> bool \<Rightarrow> (pydict \<times> bool) run" where
  "inject_loop e cfg [] st = ret st"
| "inject_loop e cfg (param # ps) (d, modified) =
     (if dict_get cfg param \<noteq> JNull then
        (let old_val = dict_get d param;
             d' = dict_set d param (dict_get cfg param)
         in if py_ne old_val (dict_get cfg param)
            then andthen (print_line e (Injected param old_val (dict_get cfg param)))
                   (\<lambda>_. inject_loop e cfg ps (d', True))
            else inject_loop e cfg ps (d', modified))
      else inject_loop e cfg ps (d, modified))"

definition PARAMS :: "string list" where
  "PARAMS = [''temperature'', ''top_p'', ''top_k'']"

text \<open>
  \<^verbatim>\<open>_inject_sampling_params\<close>. Only \<^verbatim>\<open>json.JSONDecodeError\<close> is caught. After the
  heading of the echo, \<^verbatim>\<open>data.items()\<close> raises \<^verbatim>\<open>AttributeError\<close> when the parsed
  value is not a dict.
\<close>

definition inject_sampling_params :: "env \<Rightarrow> pydict \<Rightarrow> bytes \<Rightarrow> bytes run" where
  "inject_sampling_params e cfg body =
     (case json_loads e body of
        JSONDecodeError msg \<Rightarrow> ret body
      | LoadsRaises x \<Rightarrow> throw x
      | Parsed v \<Rightarrow>
          andthen (emit [Print RequestParameters]) (\<lambda>_.
            (case v of
               JObj d \<Rightarrow>
                 andthen (echo_params e d) (\<lambda>_.
                 andthen (inject_loop e cfg PARAMS (d, False)) (\<lambda>st.
                   if snd st then ret (json_dumps e (JObj (fst st))) else ret body))
             | _ \<Rightarrow> throw AttributeError)))"

text \<open>\<^verbatim>\<open>"/messages" in self.path\<close>.\<close>

definition is_target_endpoint :: "string \<Rightarrow> bool" where
  "is_target_endpoint p = sublist ''/messages'' p"

text \<open>
  The rewriting step of \<^verbatim>\<open>_proxy_request\<close>:
  \<^verbatim>\<open>if body and "/messages" in self.path: body = self._inject_sampling_params(body)\<close>.
  The body is \<^verbatim>\<open>None\<close> or a byte string; the empty byte string is falsy.
\<close>

definition rewrite_body :: "env \<Rightarrow> pydict \<Rightarrow> string \<Rightarrow> bytes option \<Rightarrow> bytes option run" where
  "rewrite_body e cfg p body =
     (case body of
        None \<Rightarrow> ret None
      | Some b \<Rightarrow>
          if b \<noteq> [] \<and> is_target_endpoint p
          then andthen (inject_sampling_params e cfg b) (\<lambda>b'. ret (Some b'))
          else ret (Some b))"

section \<open>The request handler\<close>

text \<open>
  What the handler reads of an inbound request: the path, the header items in order,
  and the bytes waiting on \<^verbatim>\<open>rfile\<close>.
\<close>

record request =
  req_path :: string
  req_headers :: "(string \<times> string) list"
  req_rfile :: bytes

text \<open>\<^verbatim>\<open>str.lower\<close> on header names, which are ASCII.\<close>

definition lower_char :: "char \<Rightarrow> char" where
  "lower_char c =
     (case map_of (zip ''ABCDEFGHIJKLMNOPQRSTUVWXYZ'' ''abcdefghijklmnopqrstuvwxyz'') c of
        None \<Rightarrow> c
      | Some l \<Rightarrow> l)"

definition lower :: "string \<Rightarrow> string" where
  "lower s = map lower_char s"

text \<open>\<^verbatim>\<open>self.headers.get(name)\<close>: the first header of that name, whatever its case.\<close>

definition header_get :: "(string \<times> string) list \<Rightarrow> string \<Rightarrow> string option" where
  "header_get hs name = map_of (map (\<lambda>kv. (lower (fst kv), snd kv)) hs) (lower name)"

text \<open>
  Reading the body: \<^verbatim>\<open>int(self.headers.get("Content-Length", 0))\<close>, which raises
  \<^verbatim>\<open>ValueError\<close> on a value that is not an integer, then
  \<^verbatim>\<open>self.rfile.read(content_length) if content_length > 0 else None\<close>. The read
  raises \<^verbatim>\<open>OverflowError\<close> when the length does not fit a signed 64-bit size; that it
  could run out of memory below that is not modelled.
\<close>

definition read_body :: "env \<Rightarrow> request \<Rightarrow> exn + bytes option" where
  "read_body e r =
     (case (case header_get (req_headers r) ''Content-Length'' of
              None \<Rightarrow> Some 0
            | Some s \<Rightarrow> py_int e s) of
        None \<Rightarrow> Inl ValueError
      | Some n \<Rightarrow>
          if n > 0
          then (if n \<ge> 2 ^ 63 then Inl OverflowError
                else Inr (Some (take (nat n) (req_rfile r))))
          else Inr None)"

text \<open>The headers sent upstream: all but \<^verbatim>\<open>Host\<close> and \<^verbatim>\<open>Content-Length\<close>, stored in a dict.\<close>

definition forward_headers :: "(string \<times> string) list \<Rightarrow> (string \<times> string) list" where
  "forward_headers hs =
     fold (\<lambda>kv h. if lower (fst kv) = ''host'' \<or> lower (fst kv) = ''content-length'' then h
                   else dict_set h (fst kv) (snd kv)) hs []"

text \<open>The headers sent back: all but \<^verbatim>\<open>Transfer-Encoding\<close> and \<^verbatim>\<open>Connection\<close>.\<close>

definition relay_headers :: "(string \<times> string) list \<Rightarrow> event list" where
  "relay_headers hs =
     map (\<lambda>kv. SendHeader (fst kv) (snd kv))
       (filter (\<lambda>kv. lower (fst kv) \<noteq> ''transfer-encoding'' \<and> lower (fst kv) \<noteq> ''connection'') hs)"

text \<open>
  The loop that streams the response body. It returns the writes done and, when a read
  raised, the message of the exception.
\<close>

fun stream_body :: "read_result list \<Rightarrow> event list \<times> string option" where
  "stream_body [] = ([], None)"
| "stream_body (Chunk c # rs) =
     (if c = [] then ([], None)
      else (case stream_body rs of (evs, failed) \<Rightarrow> (Write c # Flush # evs, failed)))"
| "stream_body (ReadError msg # rs) = ([], Some msg)"

text \<open>The \<^verbatim>\<open>except Exception\<close> branch: the one response the proxy makes up itself.\<close>

definition error_response :: "env \<Rightarrow> string \<Rightarrow> unit run" where
  "error_response e msg =
     emit [Print (ErrorLine msg), SendResponse 502,
           SendHeader ''Content-Type'' ''application/json'', EndHeaders,
           Write (json_dumps e (JObj [(''error'', JStr msg)]))]"

text \<open>
  The ways the \<^verbatim>\<open>try\<close> statement of \<^verbatim>\<open>_proxy_request\<close> ends. A read that raises
  while the body is streamed is inside the \<^verbatim>\<open>try\<close> block and is caught by
  \<^verbatim>\<open>except Exception\<close>; \<^verbatim>\<open>e.read()\<close> that raises is inside the
  \<^verbatim>\<open>except HTTPError\<close> clause and leaves the handler.
\<close>

fun respond :: "env \<Rightarrow> upstream \<Rightarrow> unit run" where
  "respond e (Response status hs rs) =
     andthen (emit (SendResponse status # relay_headers hs @ [EndHeaders])) (\<lambda>_.
       (case stream_body rs of
          (evs, None) \<Rightarrow> emit evs
        | (evs, Some msg) \<Rightarrow> andthen (emit evs) (\<lambda>_. error_response e msg)))"
| "respond e (HTTPError code hs body) =
     andthen (emit (SendResponse code # relay_headers hs @ [EndHeaders])) (\<lambda>_.
       (case body of
          Chunk b \<Rightarrow> emit [Write b]
        | ReadError msg \<Rightarrow> throw (OtherError msg)))"
| "respond e (Raised msg) = error_response e msg"
| "respond e (Redirected code hs u) = respond e u"

text \<open>
  \<^verbatim>\<open>_proxy_request\<close> up to the request it builds for the upstream: the target URL,
  the body as read and possibly rewritten, the forwarded headers and the method. An
  exception raised here is outside the \<^verbatim>\<open>try\<close> statement and leaves the handler.
\<close>

definition build_request :: "env \<Rightarrow> pydict \<Rightarrow> string \<Rightarrow> request \<Rightarrow> outbound run" where
  "build_request e cfg meth r =
     (case read_body e r of
        Inl x \<Rightarrow> throw x
      | Inr body \<Rightarrow>
          andthen (rewrite_body e cfg (req_path r) body) (\<lambda>body'.
            ret \<lparr>out_url = ANTHROPIC_API_URL @ req_path r, out_data = body',
                 out_headers = forward_headers (req_headers r), out_method = meth\<rparr>))"

text \<open>\<^verbatim>\<open>_proxy_request\<close>: the request is built, sent, and answered.\<close>

definition proxy_request :: "env \<Rightarrow> pydict \<Rightarrow> string \<Rightarrow> request \<Rightarrow> unit run" where
  "proxy_request e cfg meth r =
     andthen (build_request e cfg meth r) (\<lambda>out.
     andthen (emit [Urlopen out]) (\<lambda>_. respond e (urlopen e out)))"

definition do_POST :: "env \<Rightarrow> pydict \<Rightarrow> request \<Rightarrow> unit run" where
  "do_POST e cfg r = proxy_request e cfg ''POST'' r"

definition do_GET :: "env \<Rightarrow> pydict \<Rightarrow> request \<Rightarrow> unit run" where
  "do_GET e cfg r = proxy_request e cfg ''GET'' r"


section \<open>The loop without its printing\<close>

text \<open>
  Two shorthands for stating what the loop does: an override is due for a name when it
  is set and differs (\<^verbatim>\<open>!=\<close>) from the value the object has under the name, and
  \<open>stored\<close> is the object after every set override among the names was stored.
\<close>

abbreviation due :: "pydict \<Rightarrow> pydict \<Rightarrow> string \<Rightarrow> bool" where
  "due cfg d p \<equiv> dict_get cfg p \<noteq> JNull \<and> py_ne (dict_get d p) (dict_get cfg p)"

abbreviation stored :: "pydict \<Rightarrow> string list \<Rightarrow> pydict \<Rightarrow> pydict" where
  "stored cfg ps d \<equiv>
     fold (\<lambda>p d. if dict_get cfg p \<noteq> JNull then dict_set d p (dict_get cfg p) else d) ps d"

section \<open>A concrete environment\<close>

text \<open>
  To run the model on examples the library functions are fixed on the handful of inputs
  the examples use; each entry is what Python returns on that input. Inputs outside the
  tables are answered with an exception that names the table. The printing stream is
  UTF-8 with the strict error handler, Python's default: a line prints unless its text
  holds a lone surrogate.
\<close>

definition lone_surrogate :: string where
  "lone_surrogate = [CHR 0xED, CHR 0xA0, CHR 0x80]"

definition body_x :: bytes where
  \<open>body_x = ''{"model": "x", "temperature": 1.0}''\<close>

definition body_x_done :: bytes where
  \<open>body_x_done = ''{"model": "x", "temperature": 0.5, "top_k": 40}''\<close>

text \<open>The bodies \<^verbatim>\<open>{"model": "\ud800"}\<close> and \<^verbatim>\<open>{"model": "\ud800", "temperature": 0.5, "top_k": 40}\<close>.\<close>

definition body_lone :: bytes where
  \<open>body_lone = ''{"model": "'' @ [CHR 0x5C] @ ''ud800"}''\<close>

definition body_lone_done :: bytes where
  \<open>body_lone_done = ''{"model": "'' @ [CHR 0x5C] @ ''ud800", "temperature": 0.5, "top_k": 40}''\<close>

definition demo_loads :: "bytes \<Rightarrow> loads_result" where
  \<open>demo_loads b =
     (if b = body_x then
        Parsed (JObj [(''model'', JStr ''x''), (''temperature'', JFloat (Finite 1))])
      else if b = body_x_done then
        Parsed (JObj [(''model'', JStr ''x''), (''temperature'', JFloat (Finite (1/2))),
                      (''top_k'', JInt 40)])
      else if b = body_lone then
        Parsed (JObj [(''model'', JStr lone_surrogate)])
      else if b = body_lone_done then
        Parsed (JObj [(''model'', JStr lone_surrogate), (''temperature'', JFloat (Finite (1/2))),
                      (''top_k'', JInt 40)])
      else if b = ''{"temperature": 0, "preferred_temperature": 0.5}'' then
        Parsed (JObj [(''temperature'', JInt 0), (''preferred_temperature'', JFloat (Finite (1/2)))])
      else if b = ''{"temperature": 0}'' then
        Parsed (JObj [(''temperature'', JInt 0)])
      else if b = ''{"temperature": 0.25, "preferred_temperature": 0.5, "top_k": 40}'' then
        Parsed (JObj [(''temperature'', JFloat (Finite (1/4))),
                      (''preferred_temperature'', JFloat (Finite (1/2))), (''top_k'', JInt 40)])
      else if b = ''[1]'' then Parsed (JArr [JInt 1])
      else if b = ''{"model": '' then JSONDecodeError ''Expecting value: line 1 column 11 (char 10)''
      else LoadsRaises (OtherError ''demo_loads''))\<close>

definition demo_dumps :: "json \<Rightarrow> bytes" where
  \<open>demo_dumps v =
     (if v = JObj [(''model'', JStr ''x''), (''temperature'', JFloat (Finite (1/2))),
                   (''top_k'', JInt 40)]
      then body_x_done
      else if v = JObj [(''model'', JStr lone_surrogate), (''temperature'', JFloat (Finite (1/2))),
                        (''top_k'', JInt 40)]
      then body_lone_done
      else if v = JObj [(''error'', JStr ''<urlopen error [Errno 111] Connection refused>'')]
      then ''{"error": "<urlopen error [Errno 111] Connection refused>"}''
      else ''demo_dumps'')\<close>

definition demo_str :: "json \<Rightarrow> string" where
  "demo_str v =
     (case v of
        JStr s \<Rightarrow> s
      | _ \<Rightarrow> if v = JFloat (Finite 1) then ''1.0''
             else if v = JFloat (Finite (1/2)) then ''0.5''
             else if v = JInt 40 then ''40''
             else if v = JNull then ''None''
             else ''demo_str'')"

definition demo_int :: "string \<Rightarrow> int option" where
  "demo_int s = (if s = ''34'' then Some 34 else if s = ''3'' then Some 3
                 else if s = ''19'' then Some 19 else if s = ''52'' then Some 52 else None)"

definition demo_print :: "log_line \<Rightarrow> exn option" where
  "demo_print l =
     (case l of
        ParamLine k t \<Rightarrow>
          if sublist lone_surrogate k \<or> sublist lone_surrogate t then Some UnicodeEncodeError
          else None
      | Injected p a b \<Rightarrow>
          if sublist lone_surrogate (demo_str a) \<or> sublist lone_surrogate (demo_str b)
          then Some UnicodeEncodeError else None
      | LoadedConfig p \<Rightarrow> if sublist lone_surrogate p then Some UnicodeEncodeError else None
      | _ \<Rightarrow> None)"

definition demo_open :: "string \<Rightarrow> file_read" where
  \<open>demo_open p =
     (if p = ''sampling.json'' then
        Contents ''{"temperature": 0.25, "preferred_temperature": 0.5, "top_k": 40}''
      else if p = ''zero.json'' then
        Contents ''{"temperature": 0, "preferred_temperature": 0.5}''
      else if p = ''zero_only.json'' then
        Contents ''{"temperature": 0}''
      else NoSuchFile)\<close>

definition demo_urlopen :: "outbound \<Rightarrow> upstream" where
  \<open>demo_urlopen out =
     (if out_url out = ''https://api.anthropic.com/v1/messages'' then
        HTTPError 429 [(''Content-Type'', ''application/json''), (''Connection'', ''close''),
                       (''Transfer-Encoding'', ''chunked''), (''retry-after'', ''7'')]
          (Chunk ''{"error":"rate_limited"}'')
      else if out_url out = ''https://api.anthropic.com/v1/models'' then
        Raised ''<urlopen error [Errno 111] Connection refused>''
      else if out_url out = ''https://api.anthropic.com/v1/old'' then
        Redirected 302 [(''Location'', ''https://api.anthropic.com/v1/new'')]
          (Response 200 [(''Content-Type'', ''text/plain'')] [Chunk ''moved''])
      else Response 200 [] [])\<close>

definition demo_env :: env where
  "demo_env = \<lparr>json_loads = demo_loads, json_dumps = demo_dumps, py_str = demo_str,
                py_int = demo_int, py_print = demo_print, open_file = demo_open,
                urlopen = demo_urlopen\<rparr>"

text \<open>
  The same library on a stream whose error handler writes a replacement for what it
  cannot encode (\<^verbatim>\<open>PYTHONIOENCODING=utf-8:backslashreplace\<close>): every line prints.
\<close>

definition lenient_env :: env where
  "lenient_env = demo_env\<lparr>py_print := (\<lambda>l. None)\<rparr>"

definition demo_cfg :: pydict where
  "demo_cfg = [(''temperature'', JFloat (Finite (1/2))), (''top_p'', JNull), (''top_k'', JInt 40)]"


definition demo_models :: request where
  "demo_models = \<lparr>req_path = ''/v1/models'',
                   req_headers = [(''Host'', ''127.0.0.1:8080''), (''Content-Length'', ''34'')],
                   req_rfile = body_x\<rparr>"



section \<open>Facts about runs\<close>

lemma andthen_ret: "andthen (ret a) f = f a"
  by (simp add: andthen_def ret_def)

lemma andthen_throw: "andthen (throw x) f = throw x"
  by (simp add: andthen_def throw_def)

lemma andthen_emit: "andthen (emit evs) f = (evs @ fst (f ()), snd (f ()))"
  by (simp add: andthen_def emit_def)

lemma andthen_returned: "andthen (evs, Inr a) f = (evs @ fst (f a), snd (f a))"
  by (simp add: andthen_def)

lemma andthen_raised: "andthen (evs, Inl x) f = (evs, Inl x)"
  by (simp add: andthen_def)

lemma andthen_returns:
  "andthen m f = (evs, Inr b) \<longleftrightarrow>
     (\<exists>evs1 a evs2. m = (evs1, Inr a) \<and> f a = (evs2, Inr b) \<and> evs = evs1 @ evs2)"
  by (cases m; cases "snd m") (auto simp: andthen_def prod_eq_iff split: sum.splits)

lemma print_line_returns:
  "print_line e l = (evs, Inr u) \<longleftrightarrow> py_print e l = None \<and> evs = [Print l]"
  by (auto simp: print_line_def emit_def throw_def split: option.splits)

lemma changes_append: "changes (xs @ ys) = changes xs @ changes ys"
  by (induction xs rule: changes.induct) auto

lemma changes_injected:
  "changes (map (\<lambda>p. Print (Injected p (f p) (g p))) ps) = map (\<lambda>p. (p, f p, g p)) ps"
  by (induction ps) auto

lemma changes_param_lines: "changes (map (\<lambda>kv. Print (ParamLine (f kv) (g kv))) d) = []"
  by (induction d) auto

lemma py_len_le: "py_len s \<le> length s"
  by (simp add: py_len_def)

section \<open>Facts about dictionaries and the override loop\<close>

lemma map_of_dict_set: "map_of (dict_set d k v) k' = (if k' = k then Some v else map_of d k')"
  by (induction d) auto

lemma dict_get_dict_set: "dict_get (dict_set d k v) k' = (if k' = k then v else dict_get d k')"
  by (simp add: dict_get_def map_of_dict_set)

lemma keys_dict_set:
  "map fst (dict_set d k v) = (if k \<in> set (map fst d) then map fst d else map fst d @ [k])"
  by (induction d) auto

lemma stored_map_of:
  "map_of (stored cfg ps d) k =
     (if k \<in> set ps \<and> dict_get cfg k \<noteq> JNull then Some (dict_get cfg k) else map_of d k)"
  by (induction ps arbitrary: d) (auto simp: map_of_dict_set)

lemma key_set_dict_set: "fst ` set (dict_set d k v) = insert k (fst ` set d)"
  by (induction d) auto

lemma stored_keys:
  "distinct ps \<Longrightarrow>
   map fst (stored cfg ps d) =
     map fst d @ filter (\<lambda>p. dict_get cfg p \<noteq> JNull \<and> p \<notin> set (map fst d)) ps"
proof (induction ps arbitrary: d)
  case Nil
  then show ?case by simp
next
  case (Cons a ps)
  from Cons.prems have dp: "distinct ps" and na: "a \<notin> set ps" by simp_all
  have f1: "\<And>P S. filter (\<lambda>p. P p \<and> p \<notin> insert a S) ps = filter (\<lambda>p. P p \<and> p \<notin> S) ps"
    using na by (intro filter_cong) auto
  have f2: "\<And>P Q. filter (\<lambda>p. P p \<and> p \<noteq> a \<and> Q p) ps = filter (\<lambda>p. P p \<and> Q p) ps"
    using na by (intro filter_cong) auto
  show ?case
    by (auto simp: Cons.IH[OF dp] keys_dict_set key_set_dict_set f1 f2)
qed

text \<open>
  The loop visits distinct names, so the old value it reads for a name is the one of the
  object as parsed: earlier rounds wrote other keys only.
\<close>

lemma due_after_set:
  "a \<notin> set ps \<Longrightarrow>
     filter (due cfg (dict_set d a v)) ps = filter (due cfg d) ps"
  by (intro filter_cong) (auto simp: dict_get_dict_set)

lemma injected_after_set:
  "a \<notin> set ps \<Longrightarrow> set xs \<subseteq> set ps \<Longrightarrow>
     map (\<lambda>p. Print (Injected p (dict_get (dict_set d a v) p) (dict_get cfg p))) xs
       = map (\<lambda>p. Print (Injected p (dict_get d p) (dict_get cfg p))) xs"
  by (intro map_cong) (auto simp: dict_get_dict_set)

lemma any_due_after_set:
  "a \<notin> set ps \<Longrightarrow> (\<exists>p \<in> set ps. due cfg (dict_set d a v) p) = (\<exists>p \<in> set ps. due cfg d p)"
  by (auto simp: dict_get_dict_set)

lemma inject_loop_returns:
  "distinct ps \<Longrightarrow> inject_loop e cfg ps (d, m) = (evs, Inr st) \<Longrightarrow>
     st = (stored cfg ps d, m \<or> (\<exists>p \<in> set ps. due cfg d p)) \<and>
     evs = map (\<lambda>p. Print (Injected p (dict_get d p) (dict_get cfg p))) (filter (due cfg d) ps)"
proof (induction ps arbitrary: d m evs)
  case Nil
  then show ?case by (simp add: ret_def)
next
  case (Cons a ps)
  from Cons.prems have dp: "distinct ps" and na: "a \<notin> set ps" by simp_all
  note IH = Cons.IH[OF dp]
  show ?case
  proof (cases "dict_get cfg a = JNull")
    case True
    with Cons.prems(2) have "inject_loop e cfg ps (d, m) = (evs, Inr st)" by simp
    from IH[OF this] True show ?thesis by simp
  next
    case set: False
    let ?d = "dict_set d a (dict_get cfg a)"
    show ?thesis
    proof (cases "py_ne (dict_get d a) (dict_get cfg a)")
      case False
      with set Cons.prems(2) have "inject_loop e cfg ps (?d, m) = (evs, Inr st)"
        by (simp add: Let_def)
      from IH[OF this] set False show ?thesis
        by (simp add: due_after_set[OF na] any_due_after_set[OF na] injected_after_set[OF na])
    next
      case True
      with set Cons.prems(2) have
        "andthen (print_line e (Injected a (dict_get d a) (dict_get cfg a)))
           (\<lambda>_. inject_loop e cfg ps (?d, True)) = (evs, Inr st)"
        by (simp add: Let_def)
      then obtain evs2 where
        rest: "inject_loop e cfg ps (?d, True) = (evs2, Inr st)"
        and evs: "evs = Print (Injected a (dict_get d a) (dict_get cfg a)) # evs2"
        by (auto simp: andthen_returns print_line_returns)
      from IH[OF rest] set True show ?thesis
        by (simp add: evs due_after_set[OF na] any_due_after_set[OF na] injected_after_set[OF na])
    qed
  qed
qed

lemma inject_loop_ok:
  "distinct ps \<Longrightarrow>
   \<forall>p \<in> set ps. due cfg d p \<longrightarrow>
      py_print e (Injected p (dict_get d p) (dict_get cfg p)) = None \<Longrightarrow>
   inject_loop e cfg ps (d, m) =
     (map (\<lambda>p. Print (Injected p (dict_get d p) (dict_get cfg p))) (filter (due cfg d) ps),
      Inr (stored cfg ps d, m \<or> (\<exists>p \<in> set ps. due cfg d p)))"
proof (induction ps arbitrary: d m)
  case Nil
  then show ?case by (simp add: ret_def)
next
  case (Cons a ps)
  from Cons.prems have dp: "distinct ps" and na: "a \<notin> set ps" by simp_all
  have later: "\<And>v. \<forall>p \<in> set ps. due cfg (dict_set d a v) p \<longrightarrow>
      py_print e (Injected p (dict_get (dict_set d a v) p) (dict_get cfg p)) = None"
    using Cons.prems(2) na by (auto simp: dict_get_dict_set)
  have same: "\<forall>p \<in> set ps. due cfg d p \<longrightarrow>
      py_print e (Injected p (dict_get d p) (dict_get cfg p)) = None"
    using Cons.prems(2) by simp
  show ?case
  proof (cases "due cfg d a")
    case True
    then have "py_print e (Injected a (dict_get d a) (dict_get cfg a)) = None"
      using Cons.prems(2) by simp
    with True show ?thesis
      by (simp add: Let_def print_line_def andthen_emit Cons.IH[OF dp later]
            due_after_set[OF na] any_due_after_set[OF na] injected_after_set[OF na])
  next
    case False
    then show ?thesis
      by (auto simp: Let_def Cons.IH[OF dp later] Cons.IH[OF dp same]
            due_after_set[OF na] any_due_after_set[OF na] injected_after_set[OF na])
  qed
qed

section \<open>Facts about the parameter echo\<close>

lemma echo_params_ok:
  "\<forall>kv \<in> set d. py_print e (ParamLine (fst kv) (truncate_log e (snd kv))) = None \<Longrightarrow>
     echo_params e d =
       (map (\<lambda>kv. Print (ParamLine (fst kv) (truncate_log e (snd kv)))) d, Inr ())"
  by (induction d) (simp_all add: ret_def print_line_def andthen_emit)

lemma echo_params_returns:
  "echo_params e d = (evs, Inr u) \<Longrightarrow>
     evs = map (\<lambda>kv. Print (ParamLine (fst kv) (truncate_log e (snd kv)))) d"
proof (induction d arbitrary: evs)
  case Nil
  then show ?case by (simp add: ret_def)
next
  case (Cons kv d)
  from Cons.prems obtain evs2 where
    rest: "echo_params e d = (evs2, Inr u)"
    and evs: "evs = Print (ParamLine (fst kv) (truncate_log e (snd kv))) # evs2"
    by (auto simp: andthen_returns print_line_returns)
  from Cons.IH[OF rest] evs show ?case by simp
qed

text \<open>One line of the echo that cannot be printed ends the echo with an exception.\<close>

lemma echo_params_raises:
  "kv \<in> set d \<Longrightarrow> py_print e (ParamLine (fst kv) (truncate_log e (snd kv))) = Some x \<Longrightarrow>
     \<exists>y. snd (echo_params e d) = Inl y"
proof (induction d)
  case Nil
  then show ?case by simp
next
  case (Cons a d)
  show ?case
  proof (cases "py_print e (ParamLine (fst a) (truncate_log e (snd a)))")
    case (Some y)
    then show ?thesis by (simp add: print_line_def throw_def andthen_raised)
  next
    case None
    with Cons.prems have "kv \<in> set d" by auto
    from Cons.IH[OF this Cons.prems(2)] None show ?thesis
      by (simp add: print_line_def andthen_emit)
  qed
qed

section \<open>Facts about the rewriter\<close>

lemma inject_decode_error:
  "json_loads e body = JSONDecodeError msg \<Longrightarrow> inject_sampling_params e cfg body = ([], Inr body)"
  by (simp add: inject_sampling_params_def ret_def)

lemma inject_not_object:
  "json_loads e body = Parsed v \<Longrightarrow> \<forall>d. v \<noteq> JObj d \<Longrightarrow>
     inject_sampling_params e cfg body = ([Print RequestParameters], Inl AttributeError)"
  by (cases v) (simp_all add: inject_sampling_params_def andthen_emit throw_def)

lemma inject_other_exception:
  "json_loads e body = LoadsRaises x \<Longrightarrow> inject_sampling_params e cfg body = ([], Inl x)"
  by (simp add: inject_sampling_params_def throw_def)

text \<open>
  With every line of the echo printed and every set override equal to the value the
  object has, the input bytes come back and no \<^verbatim>\<open>Injected\<close> line is printed.
\<close>

lemma inject_unchanged:
  assumes parsed: "json_loads e body = Parsed (JObj d)"
    and same: "\<forall>q \<in> set PARAMS. dict_get cfg q \<noteq> JNull \<longrightarrow>
                 py_eq (dict_get d q) (dict_get cfg q)"
    and echo: "\<forall>kv \<in> set d. py_print e (ParamLine (fst kv) (truncate_log e (snd kv))) = None"
  shows "inject_sampling_params e cfg body =
           (Print RequestParameters #
              map (\<lambda>kv. Print (ParamLine (fst kv) (truncate_log e (snd kv)))) d, Inr body)"
proof -
  have dist: "distinct PARAMS" by (simp add: PARAMS_def)
  have none: "\<forall>p \<in> set PARAMS. \<not> due cfg d p"
    using same by (auto simp: py_ne_def)
  then have quiet: "\<forall>p \<in> set PARAMS. due cfg d p \<longrightarrow>
      py_print e (Injected p (dict_get d p) (dict_get cfg p)) = None" by blast
  have nothing: "filter (due cfg d) PARAMS = []"
    using none by (simp add: filter_empty_conv)
  have loop: "inject_loop e cfg PARAMS (d, False) = ([], Inr (stored cfg PARAMS d, False))"
    using none by (simp add: inject_loop_ok[OF dist quiet] nothing)
  show ?thesis
    by (simp add: inject_sampling_params_def parsed andthen_emit echo_params_ok[OF echo]
          andthen_returned loop ret_def)
qed

text \<open>
  With every line printed and some set override due, the new body is \<^verbatim>\<open>json.dumps\<close>
  of the object with the overrides stored, and the \<^verbatim>\<open>Injected\<close> lines are those of
  the overrides that were due.
\<close>

lemma inject_applied:
  assumes parsed: "json_loads e body = Parsed (JObj d)"
    and differs: "\<exists>q \<in> set PARAMS. due cfg d q"
    and echo: "\<forall>kv \<in> set d. py_print e (ParamLine (fst kv) (truncate_log e (snd kv))) = None"
    and lines: "\<forall>q \<in> set PARAMS. due cfg d q \<longrightarrow>
                  py_print e (Injected q (dict_get d q) (dict_get cfg q)) = None"
  shows "inject_sampling_params e cfg body =
           (Print RequestParameters #
              map (\<lambda>kv. Print (ParamLine (fst kv) (truncate_log e (snd kv)))) d @
              map (\<lambda>q. Print (Injected q (dict_get d q) (dict_get cfg q)))
                (filter (due cfg d) PARAMS),
            Inr (json_dumps e (JObj (stored cfg PARAMS d))))"
proof -
  have dist: "distinct PARAMS" by (simp add: PARAMS_def)
  have loop: "inject_loop e cfg PARAMS (d, False) =
      (map (\<lambda>q. Print (Injected q (dict_get d q) (dict_get cfg q))) (filter (due cfg d) PARAMS),
       Inr (stored cfg PARAMS d, True))"
    using differs by (simp add: inject_loop_ok[OF dist lines])
  show ?thesis
    by (simp add: inject_sampling_params_def parsed andthen_emit echo_params_ok[OF echo]
          andthen_returned loop ret_def)
qed

text \<open>
  A parsed object with one item whose echo line cannot be printed: the rewriter raises,
  whatever the overrides.
\<close>

lemma inject_unprintable_raises:
  assumes parsed: "json_loads e body = Parsed (JObj d)"
    and item: "kv \<in> set d"
    and line: "py_print e (ParamLine (fst kv) (truncate_log e (snd kv))) = Some x"
  shows "\<exists>evs y. inject_sampling_params e cfg body = (evs, Inl y)"
proof -
  from echo_params_raises[OF item line] obtain y where "snd (echo_params e d) = Inl y" ..
  then obtain evs0 where "echo_params e d = (evs0, Inl y)"
    by (cases "echo_params e d") auto
  then have "inject_sampling_params e cfg body = (Print RequestParameters # evs0, Inl y)"
    by (simp add: inject_sampling_params_def parsed andthen_emit andthen_raised)
  then show ?thesis by blast
qed

text \<open>
  What a run of the rewriter that returns has returned and reported, whatever the
  stream did with the lines.
\<close>

lemma inject_returns:
  assumes run: "inject_sampling_params e cfg body = (evs, Inr b)"
  shows "(\<exists>msg. json_loads e body = JSONDecodeError msg \<and> b = body \<and> changes evs = []) \<or>
         (\<exists>d. json_loads e body = Parsed (JObj d) \<and>
               b = (if \<exists>q \<in> set PARAMS. due cfg d q
                    then json_dumps e (JObj (stored cfg PARAMS d)) else body) \<and>
               changes evs = map (\<lambda>q. (q, dict_get d q, dict_get cfg q))
                               (filter (due cfg d) PARAMS))"
proof (cases "json_loads e body")
  case (JSONDecodeError msg)
  with run show ?thesis by (auto simp: inject_sampling_params_def ret_def)
next
  case (LoadsRaises x)
  with run show ?thesis by (simp add: inject_sampling_params_def throw_def)
next
  case (Parsed v)
  have dist: "distinct PARAMS" by (simp add: PARAMS_def)
  show ?thesis
  proof (cases "\<exists>d. v = JObj d")
    case False
    then have "\<forall>d. v \<noteq> JObj d" by simp
    from inject_not_object[OF Parsed this] run show ?thesis by simp
  next
    case True
    then obtain d where v: "v = JObj d" ..
    from run obtain evs1 evs2 st where
      ec: "echo_params e d = (evs1, Inr ())"
      and lp: "inject_loop e cfg PARAMS (d, False) = (evs2, Inr st)"
      and b: "b = (if snd st then json_dumps e (JObj (fst st)) else body)"
      and evs: "evs = Print RequestParameters # evs1 @ evs2"
      by (auto simp: inject_sampling_params_def Parsed v andthen_returns emit_def ret_def
            split: if_splits)
    from inject_loop_returns[OF dist lp] have
      st: "st = (stored cfg PARAMS d, \<exists>q \<in> set PARAMS. due cfg d q)"
      and evs2: "evs2 = map (\<lambda>q. Print (Injected q (dict_get d q) (dict_get cfg q)))
                          (filter (due cfg d) PARAMS)"
      by simp_all
    have "changes evs = map (\<lambda>q. (q, dict_get d q, dict_get cfg q)) (filter (due cfg d) PARAMS)"
      unfolding evs echo_params_returns[OF ec] evs2
      by (simp add: changes_append changes_param_lines changes_injected)
    with b st Parsed v show ?thesis by auto
  qed
qed

text \<open>
  Two runs of the rewriting step on the same body and store, on paths that agree on
  \<^verbatim>\<open>/messages\<close>, with the same \<^verbatim>\<open>json\<close> functions: if both return, they return the
  same body and report the same changes, whatever their streams did.
\<close>

lemma rewrite_returns_same:
  assumes lib: "json_loads e1 = json_loads e2" "json_dumps e1 = json_dumps e2"
    and flag: "is_target_endpoint p1 = is_target_endpoint p2"
    and run1: "rewrite_body e1 cfg p1 body = (evs1, Inr b1)"
    and run2: "rewrite_body e2 cfg p2 body = (evs2, Inr b2)"
  shows "b1 = b2 \<and> changes evs1 = changes evs2"
proof (cases "\<exists>b. body = Some b \<and> b \<noteq> [] \<and> is_target_endpoint p1")
  case False
  with run1 run2 flag show ?thesis
    by (auto simp: rewrite_body_def ret_def split: option.splits if_splits)
next
  case True
  then obtain b where body: "body = Some b" "b \<noteq> []" "is_target_endpoint p1" by blast
  with flag have t2: "is_target_endpoint p2" by simp
  from run1 body obtain c1 where
    i1: "inject_sampling_params e1 cfg b = (evs1, Inr c1)" and b1: "b1 = Some c1"
    by (auto simp: rewrite_body_def andthen_returns ret_def)
  from run2 body t2 obtain c2 where
    i2: "inject_sampling_params e2 cfg b = (evs2, Inr c2)" and b2: "b2 = Some c2"
    by (auto simp: rewrite_body_def andthen_returns ret_def)
  from inject_returns[OF i1] inject_returns[OF i2] lib
  have "c1 = c2 \<and> changes evs1 = changes evs2"
    by auto
  with b1 b2 show ?thesis by simp
qed

section \<open>Facts about the configuration\<close>

lemma load_config_file_returns:
  "load_config_file e p = (evs, Inr fc) \<Longrightarrow>
     fc = [] \<or> (\<exists>d. fc =
       [(''temperature'', py_or (dict_get d ''temperature'') (dict_get d ''preferred_temperature'')),
        (''top_p'', py_or (dict_get d ''top_p'') (dict_get d ''preferred_top_p'')),
        (''top_k'', py_or (dict_get d ''top_k'') (dict_get d ''preferred_top_k''))])"
  by (auto simp: load_config_file_def ret_def throw_def andthen_emit
        split: file_read.splits loads_result.splits json.splits)

lemma py_or_truthy: "truthy a \<Longrightarrow> py_or a b = a"
  by (simp add: py_or_def)

lemma py_or_falsy: "\<not> truthy a \<Longrightarrow> py_or a b = b"
  by (simp add: py_or_def)

lemma dict_get_cli_override:
  "dict_get (cli_override name v c) k =
     (case v of None \<Rightarrow> dict_get c k | Some x \<Rightarrow> if k = name then x else dict_get c k)"
  by (simp add: cli_override_def dict_get_dict_set split: option.splits)

lemma dict_get_file_update:
  "k \<in> set PARAMS \<Longrightarrow>
   dict_get (dict_update SAMPLING_CONFIG
      (filter (\<lambda>kv. snd kv \<noteq> JNull) [(''temperature'', x), (''top_p'', y), (''top_k'', z)])) k
     = dict_get [(''temperature'', x), (''top_p'', y), (''top_k'', z)] k"
  by (auto simp: PARAMS_def SAMPLING_CONFIG_def dict_get_def)

text \<open>
  The merging of \<^verbatim>\<open>main\<close>, given what \<^verbatim>\<open>load_config_file\<close> returned (\<open>fc\<close>; nothing
  when no config path was given): when \<^verbatim>\<open>main\<close> returns, each name holds the command
  line's value if one was given, otherwise the value of \<open>fc\<close>.
\<close>

lemma main_config_merge:
  assumes fromfile: "case arg_config a of
                       None \<Rightarrow> fc = []
                     | Some p \<Rightarrow> if p = [] then fc = []
                                 else \<exists>evs. load_config_file e p = (evs, Inr fc)"
    and run: "main_config e a = (evs', Inr c)"
  shows "dict_get c ''temperature'' =
               (case arg_temperature a of Some t \<Rightarrow> JFloat t | None \<Rightarrow> dict_get fc ''temperature'')
           \<and> dict_get c ''top_p'' =
               (case arg_top_p a of Some t \<Rightarrow> JFloat t | None \<Rightarrow> dict_get fc ''top_p'')
           \<and> dict_get c ''top_k'' =
               (case arg_top_k a of Some n \<Rightarrow> JInt n | None \<Rightarrow> dict_get fc ''top_k'')"
proof -
  define base where "base = dict_update SAMPLING_CONFIG (filter (\<lambda>kv. snd kv \<noteq> JNull) fc)"
  have shape: "fc = [] \<or> (\<exists>x y z. fc = [(''temperature'', x), (''top_p'', y), (''top_k'', z)])"
    using fromfile load_config_file_returns[of e _ _ fc]
    by (auto split: option.splits if_splits)
  have base: "\<forall>k \<in> set PARAMS. dict_get base k = dict_get fc k"
    using shape unfolding base_def
    by (auto simp: dict_get_file_update) (simp_all add: PARAMS_def SAMPLING_CONFIG_def dict_get_def)
  from run obtain evs1 c1 where
    first: "(case arg_config a of
          None \<Rightarrow> ret SAMPLING_CONFIG
        | Some p \<Rightarrow>
            if p = [] then ret SAMPLING_CONFIG
            else andthen (load_config_file e p) (\<lambda>file_config.
                 andthen (print_line e (LoadedConfig p)) (\<lambda>_.
                 ret (dict_update SAMPLING_CONFIG
                        (filter (\<lambda>kv. snd kv \<noteq> JNull) file_config))))) = (evs1, Inr c1)"
    and c: "c = cli_override ''top_k'' (map_option JInt (arg_top_k a))
                  (cli_override ''top_p'' (map_option JFloat (arg_top_p a))
                    (cli_override ''temperature'' (map_option JFloat (arg_temperature a)) c1))"
    by (auto simp: main_config_def andthen_returns ret_def)
  have "c1 = base"
    using first fromfile
    by (auto simp: base_def andthen_returns ret_def print_line_returns
          split: option.splits if_splits)
  with base c show ?thesis
    by (auto simp: dict_get_cli_override PARAMS_def split: option.splits)
qed

section \<open>Facts about the response\<close>

lemma stream_body_chunks:
  "[] \<notin> set cs \<Longrightarrow>
     stream_body (map Chunk cs) = (concat (map (\<lambda>c. [Write c, Flush]) cs), None)"
  by (induction cs) auto

text \<open>
  A read that raises after the response has begun is caught by the same
  \<^verbatim>\<open>except Exception\<close> clause: the 502 response is written after what was already sent.
\<close>

lemma respond_read_error:
  "c \<noteq> [] \<Longrightarrow>
     respond e (Response status hs [Chunk c, ReadError msg]) =
       (SendResponse status # relay_headers hs @ [EndHeaders, Write c, Flush] @
          fst (error_response e msg), Inr ())"
  by (simp add: andthen_emit andthen_returned error_response_def emit_def)

text \<open>
  Reading the body of an \<^verbatim>\<open>HTTPError\<close> can raise (a body cut short); that happens
  inside the \<^verbatim>\<open>except\<close> clause, after status and headers were sent, and leaves the
  handler.
\<close>

lemma respond_error_body_unread:
  "respond e (HTTPError code hs (ReadError msg)) =
     (SendResponse code # relay_headers hs @ [EndHeaders], Inl (OtherError msg))"
  by (simp add: andthen_emit throw_def)

section \<open>The examples, run\<close>

lemma andthen_step: "andthen (evs, Inr a) f = (case f a of (evs2, r) \<Rightarrow> (evs @ evs2, r))"
  by (simp add: andthen_def split: prod.splits)

lemmas run_steps = andthen_step andthen_raised ret_def throw_def emit_def print_line_def

lemma truncate_short: "length (py_str e v) \<le> 200 \<Longrightarrow> truncate_log e v = py_str e v"
  using py_len_le[of "py_str e v"] by (simp add: truncate_log_def MAX_LOG_LENGTH_def Let_def)

lemma demo_target: "is_target_endpoint ''/v1/messages''"
  by (simp add: is_target_endpoint_def sublist_code prefix_code)

lemma demo_not_target: "\<not> is_target_endpoint ''/v1/models''"
  by (simp add: is_target_endpoint_def sublist_code prefix_code)

lemma lower_demo:
  "lower ''Content-Length'' = ''content-length''"
  "lower ''content-length'' = ''content-length''"
  "lower ''Host'' = ''host''"
  "lower ''x-api-key'' = ''x-api-key''"
  "lower ''Accept'' = ''accept''"
  "lower ''Content-Type'' = ''content-type''"
  "lower ''Connection'' = ''connection''"
  "lower ''Transfer-Encoding'' = ''transfer-encoding''"
  "lower ''retry-after'' = ''retry-after''"
  by (simp_all add: lower_def lower_char_def)

lemma demo_truncated:
  "truncate_log demo_env (JStr ''x'') = ''x''"
  "truncate_log demo_env (JStr lone_surrogate) = lone_surrogate"
  "truncate_log demo_env (JFloat (Finite 1)) = ''1.0''"
  "truncate_log demo_env (JFloat (Finite (1/2))) = ''0.5''"
  "truncate_log demo_env (JInt 40) = ''40''"
  "truncate_log lenient_env (JStr lone_surrogate) = lone_surrogate"
  by (simp_all add: truncate_short demo_env_def lenient_env_def demo_str_def lone_surrogate_def)

lemma demo_printable:
  "demo_print (ParamLine ''model'' ''x'') = None"
  "demo_print (ParamLine ''temperature'' ''1.0'') = None"
  "demo_print (ParamLine ''temperature'' ''0.5'') = None"
  "demo_print (ParamLine ''top_k'' ''40'') = None"
  "demo_print (ParamLine ''model'' lone_surrogate) = Some UnicodeEncodeError"
  "demo_print (Injected ''temperature'' (JFloat (Finite 1)) (JFloat (Finite (1/2)))) = None"
  "demo_print (Injected ''top_k'' JNull (JInt 40)) = None"
  "demo_print (LoadedConfig ''zero_only.json'') = None"
  "demo_print (LoadedConfig ''sampling.json'') = None"
  by (simp_all add: demo_print_def demo_str_def lone_surrogate_def sublist_code prefix_code)

lemma demo_parsed:
  "json_loads demo_env body_x =
     Parsed (JObj [(''model'', JStr ''x''), (''temperature'', JFloat (Finite 1))])"
  "json_loads demo_env body_x_done =
     Parsed (JObj [(''model'', JStr ''x''), (''temperature'', JFloat (Finite (1/2))),
                   (''top_k'', JInt 40)])"
  "json_loads demo_env body_lone = Parsed (JObj [(''model'', JStr lone_surrogate)])"
  "json_loads demo_env body_lone_done =
     Parsed (JObj [(''model'', JStr lone_surrogate), (''temperature'', JFloat (Finite (1/2))),
                   (''top_k'', JInt 40)])"
  "json_loads lenient_env body_lone = Parsed (JObj [(''model'', JStr lone_surrogate)])"
  by (simp_all add: demo_env_def lenient_env_def demo_loads_def body_x_def body_x_done_def
        body_lone_def body_lone_done_def)

lemma demo_dumped:
  "json_dumps demo_env (JObj [(''model'', JStr ''x''), (''temperature'', JFloat (Finite (1/2))),
                              (''top_k'', JInt 40)]) = body_x_done"
  "json_dumps lenient_env (JObj [(''model'', JStr lone_surrogate),
       (''temperature'', JFloat (Finite (1/2))), (''top_k'', JInt 40)]) = body_lone_done"
  by (simp_all add: demo_env_def lenient_env_def demo_dumps_def lone_surrogate_def)

lemma demo_bodies_nonempty:
  "body_x \<noteq> []" "body_x_done \<noteq> []" "body_lone \<noteq> []" "body_lone_done \<noteq> []"
  by (simp_all add: body_x_def body_x_done_def body_lone_def body_lone_done_def)

lemma demo_py_print: "py_print demo_env = demo_print" "py_print lenient_env = (\<lambda>l. None)"
  by (simp_all add: demo_env_def lenient_env_def)


lemma demo_rewrite_again:
  "rewrite_body demo_env demo_cfg ''/v1/messages'' (Some body_x_done)
     = ([Print RequestParameters, Print (ParamLine ''model'' ''x''),
         Print (ParamLine ''temperature'' ''0.5''), Print (ParamLine ''top_k'' ''40'')],
        Inr (Some body_x_done))"
  by (simp add: rewrite_body_def demo_target demo_bodies_nonempty inject_sampling_params_def
        demo_parsed demo_dumped demo_truncated demo_py_print demo_printable run_steps
        demo_cfg_def PARAMS_def dict_get_def py_ne_def num_eq_def Let_def)

lemma demo_rewrite_lone:
  "rewrite_body demo_env demo_cfg ''/v1/messages'' (Some body_lone)
     = ([Print RequestParameters], Inl UnicodeEncodeError)"
  by (simp add: rewrite_body_def demo_target demo_bodies_nonempty inject_sampling_params_def
        demo_parsed demo_truncated demo_py_print demo_printable run_steps)

lemma demo_rewrite_lone_done:
  "rewrite_body demo_env demo_cfg ''/v1/messages'' (Some body_lone_done)
     = ([Print RequestParameters], Inl UnicodeEncodeError)"
  by (simp add: rewrite_body_def demo_target demo_bodies_nonempty inject_sampling_params_def
        demo_parsed demo_truncated demo_py_print demo_printable run_steps)

lemma lenient_rewrite_lone:
  "rewrite_body lenient_env demo_cfg ''/v1/messages'' (Some body_lone)
     = ([Print RequestParameters, Print (ParamLine ''model'' lone_surrogate),
         Print (Injected ''temperature'' JNull (JFloat (Finite (1/2)))),
         Print (Injected ''top_k'' JNull (JInt 40))],
        Inr (Some body_lone_done))"
  by (simp add: rewrite_body_def demo_target demo_bodies_nonempty inject_sampling_params_def
        demo_parsed demo_dumped demo_truncated demo_py_print run_steps
        demo_cfg_def PARAMS_def dict_get_def py_ne_def num_eq_def Let_def)




section \<open>The claims\<close>

text \<open>
  C1. Whatever the body and the override store, the rewriting step leaves the body as it
  is, prints nothing (so no change record) and raises nothing when the path does not
  contain \<^verbatim>\<open>/messages\<close>, or when the body is absent or empty; the request built for
  the upstream then carries the body exactly as it was read.
\<close>

theorem C1_non_target_unchanged:
  "\<not> is_target_endpoint p \<or> body = None \<or> body = Some [] \<Longrightarrow>
     rewrite_body e cfg p body = ([], Inr body) \<and>
     (req_path r = p \<and> read_body e r = Inr body \<longrightarrow>
        build_request e cfg m r =
          ([], Inr \<lparr>out_url = ANTHROPIC_API_URL @ p, out_data = body,
                    out_headers = forward_headers (req_headers r), out_method = m\<rparr>))"
  by (auto simp: rewrite_body_def build_request_def run_steps split: option.splits)

theorem C1_non_target_unchanged_witness:
  "\<not> is_target_endpoint ''/v1/models'' \<and>
   rewrite_body demo_env demo_cfg ''/v1/models'' (Some body_x) = ([], Inr (Some body_x)) \<and>
   build_request demo_env demo_cfg ''GET'' demo_models
     = ([], Inr \<lparr>out_url = ''https://api.anthropic.com/v1/models'',
                 out_data = Some body_x, out_headers = [], out_method = ''GET''\<rparr>)"
proof -
  have body: "read_body demo_env demo_models = Inr (Some body_x)"
    by (simp add: read_body_def demo_models_def header_get_def lower_demo demo_env_def
          demo_int_def body_x_def)
  have hdrs: "forward_headers (req_headers demo_models) = []"
    by (simp add: forward_headers_def demo_models_def lower_demo)
  have path: "req_path demo_models = ''/v1/models''"
    by (simp add: demo_models_def)
  show ?thesis
    using C1_non_target_unchanged [of "''/v1/models''" _ demo_env demo_cfg demo_models "''GET''"]
      demo_not_target body hdrs path
    by (simp add: ANTHROPIC_API_URL_def)
qed

text \<open>
  C2. The claim: a body that does not parse as a single JSON object comes back unchanged
  and nothing is raised. The code catches \<^verbatim>\<open>json.JSONDecodeError\<close> only
  (\<open>inject_decode_error\<close>). The body \<^verbatim>\<open>[1]\<close> is valid JSON but not an object:
  after the heading of the echo, \<^verbatim>\<open>data.items()\<close> raises \<^verbatim>\<open>AttributeError\<close>,
  which leaves \<^verbatim>\<open>_inject_sampling_params\<close> and, the call being outside the
  \<^verbatim>\<open>try\<close> statement, the handler as well; no response is written.
\<close>

theorem C2_array_body_raises:
  "json_loads demo_env ''[1]'' = Parsed (JArr [JInt 1]) \<and>
   inject_sampling_params demo_env demo_cfg ''[1]''
     = ([Print RequestParameters], Inl AttributeError) \<and>
   do_POST demo_env demo_cfg
     \<lparr>req_path = ''/v1/messages'', req_headers = [(''Content-Length'', ''3'')], req_rfile = ''[1]''\<rparr>
     = ([Print RequestParameters], Inl AttributeError)"
  by (simp add: do_POST_def proxy_request_def build_request_def read_body_def header_get_def
        lower_demo rewrite_body_def demo_target inject_sampling_params_def run_steps
        demo_env_def demo_loads_def demo_int_def body_x_def body_x_done_def body_lone_def
        body_lone_done_def)

text \<open>
  C3. The claim: when every set override equals the value the body already has, the
  rewriter reports no change and returns the bytes it was given. That holds when the
  lines of the parameter echo can be printed (\<open>inject_unchanged\<close>). The body
  \<^verbatim>\<open>{"model": "\ud800", "temperature": 0.5, "top_k": 40}\<close> parses, and both set
  overrides (0.5 and 40) equal its values; but \<^verbatim>\<open>print\<close> of the echo line for
  \<^verbatim>\<open>model\<close> raises \<^verbatim>\<open>UnicodeEncodeError\<close> on the lone surrogate, nothing catches it,
  and the exception leaves the rewriter and the handler; no response is written.
\<close>

theorem C3_unprintable_value_raises:
  "json_loads demo_env body_lone_done
     = Parsed (JObj [(''model'', JStr lone_surrogate), (''temperature'', JFloat (Finite (1/2))),
                     (''top_k'', JInt 40)]) \<and>
   py_eq (JFloat (Finite (1/2))) (dict_get demo_cfg ''temperature'') \<and>
   dict_get demo_cfg ''top_p'' = JNull \<and>
   py_eq (JInt 40) (dict_get demo_cfg ''top_k'') \<and>
   rewrite_body demo_env demo_cfg ''/v1/messages'' (Some body_lone_done)
     = ([Print RequestParameters], Inl UnicodeEncodeError) \<and>
   do_POST demo_env demo_cfg
     \<lparr>req_path = ''/v1/messages'', req_headers = [(''Content-Length'', ''52'')],
      req_rfile = body_lone_done\<rparr>
     = ([Print RequestParameters], Inl UnicodeEncodeError)"
proof -
  have body: "read_body demo_env
      \<lparr>req_path = ''/v1/messages'', req_headers = [(''Content-Length'', ''52'')],
       req_rfile = body_lone_done\<rparr> = Inr (Some body_lone_done)"
    by (simp add: read_body_def header_get_def lower_demo demo_env_def demo_int_def
          body_lone_done_def)
  have post: "do_POST demo_env demo_cfg
     \<lparr>req_path = ''/v1/messages'', req_headers = [(''Content-Length'', ''52'')],
      req_rfile = body_lone_done\<rparr>
     = ([Print RequestParameters], Inl UnicodeEncodeError)"
    by (simp add: do_POST_def proxy_request_def build_request_def body demo_rewrite_lone_done
          run_steps)
  have equal: "py_eq (JFloat (Finite (1/2))) (dict_get demo_cfg ''temperature'')"
    "dict_get demo_cfg ''top_p'' = JNull"
    "py_eq (JInt 40) (dict_get demo_cfg ''top_k'')"
    by (simp_all add: demo_cfg_def dict_get_def num_eq_def)
  from demo_parsed(4) equal demo_rewrite_lone_done post show ?thesis
    by (intro conjI)
qed

text \<open>
  C4. The claim: when some set override differs from the value the body has, the new
  body is the object with every set override stored and the change records are those of
  the overrides that differed. That holds when the lines of the echo and the
  \<^verbatim>\<open>Injected\<close> lines can be printed (\<open>inject_applied\<close>, \<open>stored_map_of\<close>,
  \<open>stored_keys\<close>). The body \<^verbatim>\<open>{"model": "\ud800"}\<close> parses and both set overrides
  differ from its (missing) values; but \<^verbatim>\<open>print\<close> of the echo line for \<^verbatim>\<open>model\<close>
  raises \<^verbatim>\<open>UnicodeEncodeError\<close> before any override is stored, and the exception
  leaves the rewriter and the handler. The defect is the one of C3.
\<close>

theorem C4_unprintable_value_blocks_overrides:
  "json_loads demo_env body_lone = Parsed (JObj [(''model'', JStr lone_surrogate)]) \<and>
   dict_get demo_cfg ''temperature'' = JFloat (Finite (1/2)) \<and>
   py_ne (dict_get [(''model'', JStr lone_surrogate)] ''temperature'')
     (dict_get demo_cfg ''temperature'') \<and>
   inject_sampling_params demo_env demo_cfg body_lone
     = ([Print RequestParameters], Inl UnicodeEncodeError) \<and>
   do_POST demo_env demo_cfg
     \<lparr>req_path = ''/v1/messages'', req_headers = [(''Content-Length'', ''19'')],
      req_rfile = body_lone\<rparr>
     = ([Print RequestParameters], Inl UnicodeEncodeError)"
proof -
  have body: "read_body demo_env
      \<lparr>req_path = ''/v1/messages'', req_headers = [(''Content-Length'', ''19'')],
       req_rfile = body_lone\<rparr> = Inr (Some body_lone)"
    by (simp add: read_body_def header_get_def lower_demo demo_env_def demo_int_def
          body_lone_def)
  have post: "do_POST demo_env demo_cfg
     \<lparr>req_path = ''/v1/messages'', req_headers = [(''Content-Length'', ''19'')],
      req_rfile = body_lone\<rparr>
     = ([Print RequestParameters], Inl UnicodeEncodeError)"
    by (simp add: do_POST_def proxy_request_def build_request_def body demo_rewrite_lone
          run_steps)
  have inj: "inject_sampling_params demo_env demo_cfg body_lone
     = ([Print RequestParameters], Inl UnicodeEncodeError)"
    by (simp add: inject_sampling_params_def demo_parsed demo_truncated demo_py_print
          demo_printable run_steps)
  have due: "dict_get demo_cfg ''temperature'' = JFloat (Finite (1/2))"
    "py_ne (dict_get [(''model'', JStr lone_surrogate)] ''temperature'')
       (dict_get demo_cfg ''temperature'')"
    by (simp_all add: demo_cfg_def dict_get_def py_ne_def num_eq_def)
  from demo_parsed(3) due inj post show ?thesis
    by (intro conjI)
qed

text \<open>
  C5. The claim: with both the canonical key and the alias in the file, the loaded value
  is the first that is not null, so a canonical value that is not null wins. The code
  writes \<^verbatim>\<open>data.get(name) or data.get("preferred_" + name)\<close>, and \<^verbatim>\<open>or\<close> passes over
  every falsy value, not only \<^verbatim>\<open>None\<close>. For the file
  \<^verbatim>\<open>{"temperature": 0, "preferred_temperature": 0.5}\<close> the canonical value \<^verbatim>\<open>0\<close> is not
  null, yet the loaded temperature is the alias's \<^verbatim>\<open>0.5\<close>.
\<close>

theorem C5_falsy_canonical_loses:
  \<open>open_file demo_env ''zero.json'' = Contents ''{"temperature": 0, "preferred_temperature": 0.5}'' \<and>
   json_loads demo_env ''{"temperature": 0, "preferred_temperature": 0.5}''
     = Parsed (JObj [(''temperature'', JInt 0), (''preferred_temperature'', JFloat (Finite (1/2)))]) \<and>
   load_config_file demo_env ''zero.json''
     = ([], Inr [(''temperature'', JFloat (Finite (1/2))), (''top_p'', JNull), (''top_k'', JNull)])\<close>
  by (simp add: load_config_file_def demo_env_def demo_open_def demo_loads_def dict_get_def
        py_or_def ret_def body_x_def body_x_done_def body_lone_def body_lone_done_def)

text \<open>
  C6. The claim: each name ends with the command line's value, else the file's value,
  else unset; in particular a field present in the file and absent from the command line
  ends set to the file's value. The merging of lines 191 to 203 does that with what
  \<^verbatim>\<open>load_config_file\<close> returns (\<open>main_config_merge\<close>), but \<^verbatim>\<open>load_config_file\<close>
  loses a falsy value through the \<^verbatim>\<open>or\<close> of C5: with the file \<^verbatim>\<open>{"temperature": 0}\<close>
  and no value on the command line, the temperature the server starts with is unset.
\<close>

theorem C6_file_zero_ends_unset:
  \<open>open_file demo_env ''zero_only.json'' = Contents ''{"temperature": 0}'' \<and>
   json_loads demo_env ''{"temperature": 0}'' = Parsed (JObj [(''temperature'', JInt 0)]) \<and>
   main_config demo_env
       \<lparr>arg_config = Some ''zero_only.json'', arg_temperature = None, arg_top_p = None,
        arg_top_k = None\<rparr>
     = ([Print (LoadedConfig ''zero_only.json'')],
        Inr [(''temperature'', JNull), (''top_p'', JNull), (''top_k'', JNull)])\<close>
proof -
  have opened: \<open>open_file demo_env ''zero_only.json'' = Contents ''{"temperature": 0}''\<close>
    by (simp add: demo_env_def demo_open_def)
  have parsed: \<open>json_loads demo_env ''{"temperature": 0}''
      = Parsed (JObj [(''temperature'', JInt 0)])\<close>
    by (simp add: demo_env_def demo_loads_def body_x_def body_x_done_def body_lone_def
          body_lone_done_def)
  have loaded: "load_config_file demo_env ''zero_only.json''
      = ([], Inr [(''temperature'', JNull), (''top_p'', JNull), (''top_k'', JNull)])"
    by (simp add: load_config_file_def opened parsed dict_get_def py_or_def ret_def)
  have main: "main_config demo_env
       \<lparr>arg_config = Some ''zero_only.json'', arg_temperature = None, arg_top_p = None,
        arg_top_k = None\<rparr>
     = ([Print (LoadedConfig ''zero_only.json'')],
        Inr [(''temperature'', JNull), (''top_p'', JNull), (''top_k'', JNull)])"
    by (simp add: main_config_def loaded run_steps demo_py_print demo_printable
          SAMPLING_CONFIG_def cli_override_def)
  show ?thesis
    using opened parsed main by simp
qed







text \<open>
  C10. The claim: the result of the rewriter depends on the body, the override store and
  the target-endpoint flag and on no other state. What a run returns does
  (\<open>rewrite_returns_same\<close>); whether it returns does not. With the same body
  \<^verbatim>\<open>{"model": "\ud800"}\<close>, the same overrides and the same path, the rewriter raises
  \<^verbatim>\<open>UnicodeEncodeError\<close> when standard output is strict UTF-8 and returns the rewritten
  body when standard output replaces what it cannot encode. The defect is the one of
  C3: a line of the log that cannot be printed ends the request.
\<close>

theorem C10_result_depends_on_stdout:
  "json_loads demo_env = json_loads lenient_env \<and>
   json_dumps demo_env = json_dumps lenient_env \<and>
   rewrite_body demo_env demo_cfg ''/v1/messages'' (Some body_lone)
     = ([Print RequestParameters], Inl UnicodeEncodeError) \<and>
   rewrite_body lenient_env demo_cfg ''/v1/messages'' (Some body_lone)
     = ([Print RequestParameters, Print (ParamLine ''model'' lone_surrogate),
         Print (Injected ''temperature'' JNull (JFloat (Finite (1/2)))),
         Print (Injected ''top_k'' JNull (JInt 40))],
        Inr (Some body_lone_done))"
proof -
  have lib: "json_loads demo_env = json_loads lenient_env"
    "json_dumps demo_env = json_dumps lenient_env"
    by (simp_all add: lenient_env_def)
  from lib demo_rewrite_lone lenient_rewrite_lone show ?thesis
    by (intro conjI)
qed

end
